theory Spec2Isabelle
  imports Main "HOL-Library.Sublist"
begin

section \<open>Text\<close>

text \<open>
  A Python \<open>str\<close> is modelled by the bytes of its UTF-8 encoding, as a \<open>string\<close>.
  Substring tests (\<open>kw in s\<close>) on UTF-8 bytes agree with the tests on code points.
  The character classes below (\<open>str.lower\<close>, \<open>str.strip\<close>, \<open>\d\<close>, \<open>\s\<close>, \<open>\w\<close>) are
  those of Python on ASCII characters; bytes from 0x80 on are left unchanged by
  \<open>py_lower\<close> and belong to none of the classes, so the model is that of the
  program on ASCII text, and on text whose other characters have no case, are not
  white space, digits or word characters.
\<close>

definition is_upper :: "char \<Rightarrow> bool" where
  "is_upper c = (65 \<le> (of_char c :: int) \<and> (of_char c :: int) \<le> 90)"

definition is_lower_az :: "char \<Rightarrow> bool" where
  "is_lower_az c = (97 \<le> (of_char c :: int) \<and> (of_char c :: int) \<le> 122)"

definition is_digit :: "char \<Rightarrow> bool" where
  "is_digit c = (48 \<le> (of_char c :: int) \<and> (of_char c :: int) \<le> 57)"

definition is_space :: "char \<Rightarrow> bool" where
  \<comment> \<open>\<open>str.isspace\<close> on ASCII: tab, LF, VT, FF, CR, the separators 0x1C..0x1F, space\<close>
  "is_space c = ((9 \<le> (of_char c :: int) \<and> (of_char c :: int) \<le> 13) \<or>
                 (28 \<le> (of_char c :: int) \<and> (of_char c :: int) \<le> 32))"

definition is_word :: "char \<Rightarrow> bool" where
  "is_word c = (is_digit c \<or> is_upper c \<or> is_lower_az c \<or> c = CHR ''_'')"



definition py_strip :: "string \<Rightarrow> string" where
  "py_strip s = rev (dropWhile is_space (rev (dropWhile is_space s)))"





definition hex_val :: "char \<Rightarrow> int" where
  "hex_val c = (if is_digit c then (of_char c :: int) - 48 else (of_char c :: int) - 87)"

fun unhex :: "string \<Rightarrow> string" where
  \<comment> \<open>the bytes that a string of hexadecimal digits (\<open>0-9a-f\<close>) writes; the characters
      outside ASCII of the program's string literals are given this way, as the UTF-8
      bytes the source file has\<close>
  "unhex (a # b # cs) = char_of (hex_val a * 16 + hex_val b) # unhex cs"
| "unhex cs = []"

section \<open>Regular expressions\<close>

text \<open>
  The patterns of the program use character classes, bounded and unbounded greedy
  repetition of a class, sequence, ordered alternatives, an optional group and the
  word boundary. \<open>ends r s i\<close> lists the positions where a match of \<open>r\<close> that starts
  at position \<open>i\<close> of \<open>s\<close> can end, in the order in which Python's backtracking
  matcher tries them; the match it reports is the first one.
\<close>

datatype cls = Digit | Space | Range char char | Chars string | Union cls cls

fun in_cls :: "cls \<Rightarrow> char \<Rightarrow> bool" where
  "in_cls Digit c = is_digit c"
| "in_cls Space c = is_space c"
| "in_cls (Range a b) c = ((of_char a :: int) \<le> of_char c \<and> (of_char c :: int) \<le> of_char b)"
| "in_cls (Chars cs) c = (c \<in> set cs)"
| "in_cls (Union x y) c = (in_cls x c \<or> in_cls y c)"

datatype rx =
    Lit string
  | Cls cls
  | Rep cls nat "nat option"
  | Seq rx rx
  | Alt rx rx
  | Opt rx
  | WordB

fun ends :: "rx \<Rightarrow> string \<Rightarrow> nat \<Rightarrow> nat list" where
  "ends (Lit l) s i = (if take (length l) (drop i s) = l then [i + length l] else [])"
| "ends (Cls c) s i = (if i < length s \<and> in_cls c (s ! i) then [Suc i] else [])"
| "ends (Rep c lo hi) s i =
     (let n = length (takeWhile (in_cls c) (drop i s));
          m = (case hi of None \<Rightarrow> n | Some h \<Rightarrow> min n h)
      in if m < lo then [] else map (\<lambda>j. i + j) (rev [lo..<Suc m]))"
| "ends (Seq a b) s i = concat (map (ends b s) (ends a s i))"
| "ends (Alt a b) s i = ends a s i @ ends b s i"
| "ends (Opt a) s i = ends a s i @ [i]"
| "ends WordB s i =
     (if (0 < i \<and> i \<le> length s \<and> is_word (s ! (i - 1))) \<noteq> (i < length s \<and> is_word (s ! i))
      then [i] else [])"

definition re_match :: "rx \<Rightarrow> string \<Rightarrow> nat option" where
  \<comment> \<open>\<open>re.match\<close>: the end of the match at position 0\<close>
  "re_match r s = (case ends r s 0 of [] \<Rightarrow> None | e # _ \<Rightarrow> Some e)"





section \<open>Floating point: \<open>float(s)\<close> and \<open>str(x)\<close>\<close>

text \<open>
  \<open>float\<close> rounds the decimal to the nearest IEEE 754 double (ties to even, overflow to
  infinity); \<open>str\<close> of a float prints the shortest decimal that reads back as the same
  double, with an exponent when the value is below \<open>1e-4\<close> or at least \<open>1e16\<close>.
  Both are computed here on natural numbers: a positive double is \<open>m * 2 ^ e\<close> with
  \<open>m < 2 ^ 53\<close> and \<open>-1074 \<le> e \<le> 971\<close>. \<open>float\<close> is modelled on unsigned decimal
  literals (digits, with an optional point after the first digits); on any other string the model raises,
  where Python accepts more (signs, exponents, \<open>inf\<close>).
\<close>

datatype error = KeyError | TypeError | AttributeError | IndexError | ValueError | UnboundLocalError














section \<open>Budget extraction\<close>













section \<open>The generative backend: \<open>call_gemini_api\<close>\<close>

text \<open>
  The HTTP request is an external call: its outcome is given by the environment, one
  outcome per attempt. A response carries a status and a body; the body is either not
  JSON (\<open>response.json()\<close> raises) or an object in which every field the program looks
  at may be absent: \<open>candidates\<close>, the \<open>content\<close> of a candidate, the \<open>parts\<close> of a
  content, the \<open>text\<close> of a part.
\<close>

type_synonym part = "string option"
type_synonym content = "part list option"
type_synonym candidate = "content option"
type_synonym gemini_result = "candidate list option"

datatype body = NotJson | Body gemini_result

datatype post_outcome = PostRaised | Response nat body

datatype gemini_event = Post nat | Sleep nat

definition not_configured_reply :: string where
  "not_configured_reply =
     unhex ''c3a2c5a1c2a0c3afc2b8'' @
     '' Please configure your Gemini API key''"

definition gemini_fallback :: string where
  "gemini_fallback =
     ''Sorry, I'' @ [CHR 0x27] @
     ''m having trouble answering right now. Please try again or '' @
     ''contact our agent at +91 1234567890.''"

definition candidate_text :: "gemini_result \<Rightarrow> error + string option" where
  \<comment> \<open>the body of \<open>if response.status_code == 200\<close> after \<open>result = response.json()\<close>:
      \<open>Inr (Some t)\<close> is \<open>return t\<close>, \<open>Inr None\<close> falls through to the warning,
      \<open>Inl\<close> is an exception\<close>
  "candidate_text result =
     (case result of
        None \<Rightarrow> Inr None
      | Some [] \<Rightarrow> Inr None
      | Some (cand # _) \<Rightarrow>
          (case cand of
             None \<Rightarrow> Inr None
           | Some None \<Rightarrow> Inr None
           | Some (Some []) \<Rightarrow> Inl IndexError
           | Some (Some (p # _)) \<Rightarrow>
               (case p of None \<Rightarrow> Inl KeyError | Some t \<Rightarrow> Inr (Some t))))"

definition attempt_once :: "post_outcome \<Rightarrow> error + string option" where
  \<comment> \<open>the body of the \<open>try\<close> after the request was sent\<close>
  "attempt_once out =
     (case out of
        PostRaised \<Rightarrow> Inl ValueError
      | Response status b \<Rightarrow>
          if status = 200
          then (case b of NotJson \<Rightarrow> Inl ValueError | Body result \<Rightarrow> candidate_text result)
          else Inr None)"

fun gemini_loop ::
  "nat list \<Rightarrow> (nat \<Rightarrow> post_outcome) \<Rightarrow> gemini_event list \<Rightarrow> (error + string) \<times> gemini_event list"
where
  \<comment> \<open>\<open>for attempt in range(2)\<close>; an exception inside the \<open>try\<close> is caught and the loop
      continues, and so does an attempt that falls through to the warning\<close>
  "gemini_loop [] env ev = (Inr gemini_fallback, ev)"
| "gemini_loop (attempt # rest) env ev =
     (let ev' = (if 0 < attempt then ev @ [Sleep 2] else ev) @ [Post attempt]
      in case attempt_once (env attempt) of
           Inl e \<Rightarrow> gemini_loop rest env ev'
         | Inr None \<Rightarrow> gemini_loop rest env ev'
         | Inr (Some t) \<Rightarrow> (Inr t, ev'))"

definition py_falsy_str :: "string option \<Rightarrow> bool" where
  \<comment> \<open>\<open>not x\<close> for a value that is \<open>None\<close> or a string\<close>
  "py_falsy_str x = (x = None \<or> x = Some [])"

definition call_gemini_api ::
  "string option \<Rightarrow> (nat \<Rightarrow> post_outcome) \<Rightarrow> (error + string) \<times> gemini_event list"
where
  \<comment> \<open>the first argument is \<open>GEMINI_API_KEY\<close>; the prompt and the language only go into
      the request, whose outcome the environment gives\<close>
  "call_gemini_api api_key env =
     (if py_falsy_str api_key then (Inr not_configured_reply, [])
      else gemini_loop [0, 1] env [])"

section \<open>The knowledge base and \<open>extract_relevant_data\<close>\<close>

text \<open>
  The knowledge base is parsed JSON. A number is kept as its literal (the program never
  computes with one). A dictionary is an association list in insertion order, as
  Python's \<open>dict\<close> is; \<open>dict_set\<close> keeps the place of a key that is already there.
  Each Python operation raises what Python raises on a value of another shape.
\<close>

datatype json = JNull | JBool bool | JNum string | JStr string | JList "json list"
  | JObj "(string \<times> json) list"











subsection \<open>Keyword lists\<close>

























subsection \<open>The fixed zone descriptions\<close>




subsection \<open>The selection\<close>































section \<open>The booking ledger poller: \<open>check_new_bookings\<close>\<close>

text \<open>
  A row of the sheet is a dictionary of strings, as \<open>get_all_records\<close> gives it. The
  sheet and the transport are external: the environment says whether credentials
  exist, what fetching the records gives, in which column the header \<open>Status\<close> stands,
  and whether sending the confirmation for the row at a given position succeeds. What
  the function does to the world is the list of its sends and cell updates.
\<close>

type_synonym row = "(string \<times> string) list"

record ledger_env =
  creds_ok :: bool
  fetched :: "error + row list"
  status_col :: nat
  send_ok :: "nat \<Rightarrow> bool"

datatype ledger_event =
    SentConfirmation string string
  | UpdateCell nat nat string

definition truthy :: "string option \<Rightarrow> bool" where
  \<comment> \<open>the truth value of a value that is \<open>None\<close> or a string\<close>
  "truthy x = (case x of None \<Rightarrow> False | Some s \<Rightarrow> s \<noteq> [])"

definition py_str :: "string option \<Rightarrow> string" where
  \<comment> \<open>how an f-string prints a value that is \<open>None\<close> or a string\<close>
  "py_str x = (case x of None \<Rightarrow> ''None'' | Some s \<Rightarrow> s)"

definition format_phone :: "string option \<Rightarrow> string option" where
  \<comment> \<open>lines 194-199: \<open>re.sub(r'[^0-9+]', '', phone)\<close> and the country code\<close>
  "format_phone phone =
     (if truthy phone
      then (let p = filter (\<lambda>c. is_digit c \<or> c = CHR ''+'') (the phone)
            in if length p = 10 \<and> \<not> (p \<noteq> [] \<and> hd p = CHR ''+'') then Some (''+91'' @ p) else Some p)
      else phone)"

definition confirmation_message ::
  "string \<Rightarrow> string \<Rightarrow> string \<Rightarrow> string option \<Rightarrow> string option \<Rightarrow> string" where
  "confirmation_message name date time unit budget =
     unhex ''c49fc5b8e280b0'' @ '' *Site Visit Booking Confirmed!*\<newline>'' @
     ''\<newline>'' @ ''Dear '' @
     name @
     '',\<newline>'' @ ''\<newline>'' @
     ''Thank you for booking a site visit at Brookstone. Your appointment '' @
     ''details:\<newline>'' @ ''\<newline>'' @ unhex ''c49fc5b8e2809ce280a6'' @ '' Date: '' @
     date @
     ''\<newline>'' @ unhex ''c3a2c2b0'' @ '' Time: '' @
     time @
     ''\<newline>'' @ unhex ''c49fc5b8c2a0'' @ '' Unit Interest: '' @
     py_str unit @
     ''\<newline>'' @ unhex ''c49fc5b8e28099c2b0'' @ '' Budget Range: '' @
     py_str budget @
     ''\<newline>'' @ ''\<newline>'' @ unhex ''c49fc5b8e2809c'' @
     '' *Location:*\<newline>'' @ ''Brookstone Show Flat\<newline>'' @
     ''B/S, Vaikunth Bungalows, Next to Oxygen Park\<newline>'' @
     ''DPS-Bopal Road, Shilaj, Ahmedabad - 380059\<newline>'' @ ''\<newline>'' @
     ''Our team will be ready to welcome you! Please carry a valid '' @
     ''ID proof.\<newline>'' @ ''\<newline>'' @
     ''Need to reschedule? Contact us at: +91 1234567890\<newline>'' @ ''\<newline>'' @
     ''Looking forward to showing you your future home! '' @ unhex ''c49fc5b8c592c5b8'' @
     ''\<newline>'' @ ''\<newline>'' @ ''_Note: You'' @ [CHR 0x27] @
     ''ll receive a reminder message 1 day before your visit._''"

definition index_of :: "'a list \<Rightarrow> 'a \<Rightarrow> nat" where
  \<comment> \<open>\<open>xs.index(x)\<close> for an \<open>x\<close> of the list: the first position of an equal element\<close>
  "index_of xs x = length (takeWhile (\<lambda>y. y \<noteq> x) xs)"

fun bookings_loop ::
  "ledger_env \<Rightarrow> row list \<Rightarrow> (nat \<times> row) list \<Rightarrow> nat option \<Rightarrow> ledger_event list
     \<Rightarrow> (error + unit) \<times> ledger_event list" where
  \<comment> \<open>\<open>for record in all_records\<close>; the fourth argument is the local variable
      \<open>row_num\<close>, \<open>None\<close> while it is unbound\<close>
  "bookings_loop env all_records [] row_num ev = (Inr (), ev)"
| "bookings_loop env all_records ((i, rec) # rest) row_num ev =
     (if \<not> truthy (map_of rec ''Status'')
      then (let phone = format_phone (map_of rec ''Phone'');
                name = map_of rec ''Name'';
                date = map_of rec ''Preferred Date'';
                time = map_of rec ''Preferred Time'';
                unit = map_of rec ''Unit Type'';
                budget = map_of rec ''Budget''
            in if truthy phone \<and> truthy name \<and> truthy date \<and> truthy time
               then (let message = confirmation_message (the name) (the date) (the time) unit budget;
                         ev1 = ev @ [SentConfirmation (the phone) message]
                     in if send_ok env i
                        then (let row_num' = index_of all_records rec + 2
                              in bookings_loop env all_records rest (Some row_num')
                                   (ev1 @ [UpdateCell row_num' (status_col env) ''Confirmed'']))
                        else (case row_num of
                                None \<Rightarrow> (Inl UnboundLocalError, ev1)
                              | Some r \<Rightarrow>
                                  bookings_loop env all_records rest row_num
                                    (ev1 @ [UpdateCell r (status_col env) ''Pending - WhatsApp Failed''])))
               else bookings_loop env all_records rest row_num ev)
      else bookings_loop env all_records rest row_num ev)"

definition check_new_bookings :: "ledger_env \<Rightarrow> bool \<times> ledger_event list" where
  \<comment> \<open>the result and what was done; any exception is caught by the outer \<open>except\<close>,
      which returns \<open>False\<close>\<close>
  "check_new_bookings env =
     (if \<not> creds_ok env then (False, [])
      else case fetched env of
             Inl e \<Rightarrow> (False, [])
           | Inr all_records \<Rightarrow>
               (case bookings_loop env all_records (zip [0..<length all_records] all_records) None [] of
                  (Inl e, ev) \<Rightarrow> (False, ev)
                | (Inr u, ev) \<Rightarrow> (True, ev)))"

definition new_row :: "string \<Rightarrow> string \<Rightarrow> row" where
  \<comment> \<open>a row that the form has just added: no status yet\<close>
  "new_row name phone =
     [(''Name'', name), (''Phone'', phone), (''Preferred Date'', ''05/11/2025''),
      (''Preferred Time'', ''10:00 AM''), (''Unit Type'', ''3 BHK''), (''Budget'', ''2 Cr''),
      (''Status'', [])]"

definition ledger :: "row list \<Rightarrow> (nat \<Rightarrow> bool) \<Rightarrow> ledger_env" where
  \<comment> \<open>a sheet with these rows, the status in column 7\<close>
  "ledger rows ok = \<lparr>creds_ok = True, fetched = Inr rows, status_col = 7, send_ok = ok\<rparr>"

section \<open>Properties of the matcher and of the number conversion\<close>











section \<open>Budget extraction: result format\<close>





section \<open>The generative backend: one retry, a fixed fallback\<close>

text \<open>
  C6. \<open>call_gemini_api\<close> sends at most two requests, sleeps the fixed two seconds only
  between the first and the second, never raises, and when the key is configured and
  neither attempt returns a text it returns the fixed apology that names
  \<open>+91 1234567890\<close>, after exactly two attempts.
\<close>

theorem call_gemini_api_retry:
  "(snd (call_gemini_api k env) = [] \<or> snd (call_gemini_api k env) = [Post 0]
      \<or> snd (call_gemini_api k env) = [Post 0, Sleep 2, Post 1])
   \<and> (\<exists>s. fst (call_gemini_api k env) = Inr s)
   \<and> (\<not> py_falsy_str k \<and> (\<forall>t. attempt_once (env 0) \<noteq> Inr (Some t))
        \<and> (\<forall>t. attempt_once (env 1) \<noteq> Inr (Some t)) \<longrightarrow>
      call_gemini_api k env = (Inr gemini_fallback, [Post 0, Sleep 2, Post 1]))
   \<and> gemini_fallback =
        ''Sorry, I'' @ [CHR 0x27] @ ''m having trouble answering right now. '' @
        ''Please try again or contact our agent at +91 1234567890.''"
proof -
  have shape: "snd (call_gemini_api k env) = [] \<or> snd (call_gemini_api k env) = [Post 0]
      \<or> snd (call_gemini_api k env) = [Post 0, Sleep 2, Post 1]"
    by (simp add: call_gemini_api_def Let_def split: sum.splits option.splits)
  have total: "\<exists>s. fst (call_gemini_api k env) = Inr s"
    by (simp add: call_gemini_api_def Let_def split: sum.splits option.splits)
  have fb: "\<not> py_falsy_str k \<and> (\<forall>t. attempt_once (env 0) \<noteq> Inr (Some t))
        \<and> (\<forall>t. attempt_once (env 1) \<noteq> Inr (Some t)) \<longrightarrow>
      call_gemini_api k env = (Inr gemini_fallback, [Post 0, Sleep 2, Post 1])"
    by (simp add: call_gemini_api_def Let_def split: sum.splits option.splits)
  have msg: "gemini_fallback =
        ''Sorry, I'' @ [CHR 0x27] @ ''m having trouble answering right now. '' @
        ''Please try again or contact our agent at +91 1234567890.''"
    by (simp add: gemini_fallback_def)
  from shape total fb msg show ?thesis by blast
qed

theorem call_gemini_api_retry_witness:
  "\<not> py_falsy_str (Some ''key'')
   \<and> (\<forall>t. attempt_once (Response 503 NotJson) \<noteq> Inr (Some t))
   \<and> (\<forall>t. attempt_once PostRaised \<noteq> Inr (Some t))
   \<and> call_gemini_api (Some ''key'') (\<lambda>n. if n = 0 then Response 503 NotJson else PostRaised)
       = (Inr gemini_fallback, [Post 0, Sleep 2, Post 1])"
proof -
  let ?env = "\<lambda>n::nat. if n = 0 then Response 503 NotJson else PostRaised"
  have h0: "\<not> py_falsy_str (Some ''key'')" by (simp add: py_falsy_str_def)
  have h1: "\<forall>t. attempt_once (?env 0) \<noteq> Inr (Some t)" by (simp add: attempt_once_def)
  have h2: "\<forall>t. attempt_once (?env 1) \<noteq> Inr (Some t)" by (simp add: attempt_once_def)
  from call_gemini_api_retry[of "Some ''key''" ?env] h0 h1 h2
  have "call_gemini_api (Some ''key'') ?env = (Inr gemini_fallback, [Post 0, Sleep 2, Post 1])"
    by blast
  with h0 h1 h2 show ?thesis by simp
qed

section \<open>The selection keeps the identity section\<close>


















subsection \<open>No exception on a well-shaped tree\<close>



















subsection \<open>What the selection returns\<close>






section \<open>The booking ledger poller: a failed send\<close>

text \<open>
  C9. When the confirmation of a new row cannot be sent, the poller is to write
  \<open>Pending - WhatsApp Failed\<close> to that row's status cell and go on. The program reads
  the row number from the variable that only the success branch assigns. With one new
  row and a failing send the variable is unbound: the function returns \<open>False\<close> with
  no cell written. With a first row that succeeds and a second that fails, the failure
  status is written to row 2, the row of the first record, over its \<open>Confirmed\<close>.
\<close>

theorem check_new_bookings_failed_send:
  "check_new_bookings (ledger [new_row ''Asha'' ''9876543210''] (\<lambda>i. False))
     = (False, [SentConfirmation ''+919876543210''
                  (confirmation_message ''Asha'' ''05/11/2025'' ''10:00 AM'' (Some ''3 BHK'') (Some ''2 Cr''))])
   \<and> check_new_bookings (ledger [new_row ''Asha'' ''9876543210'', new_row ''Ravi'' ''9123456780'']
                           (\<lambda>i. i = 0))
     = (True, [SentConfirmation ''+919876543210''
                  (confirmation_message ''Asha'' ''05/11/2025'' ''10:00 AM'' (Some ''3 BHK'') (Some ''2 Cr'')),
               UpdateCell 2 7 ''Confirmed'',
               SentConfirmation ''+919123456780''
                  (confirmation_message ''Ravi'' ''05/11/2025'' ''10:00 AM'' (Some ''3 BHK'') (Some ''2 Cr'')),
               UpdateCell 2 7 ''Pending - WhatsApp Failed''])"
  by (simp add: check_new_bookings_def ledger_def new_row_def format_phone_def truthy_def
      index_of_def is_digit_def Let_def)

end
